theory Spec2Isabelle
  imports Main
begin

section \<open>Pagination customizations of the AWS CLI (awscli/customizations/paginate.py)\<close>

text \<open>
  The module hides the service specific paging parameters of an operation and adds the
  two arguments \<open>--starting-token\<close> and \<open>--max-items\<close>. The embedding below follows the
  Python source function by function. Mutation of the argument table, of the session's
  handler registry and of \<open>parsed_globals.paginate\<close> is explicit state passing; every
  exception the source can raise (also the implicit ones of a subscript, of \<open>getattr\<close>
  and of a method call on \<open>None\<close>) is a value of the type \<open>error\<close>, returned together
  with the state reached when it was raised.
\<close>

subsection \<open>Data\<close>

text \<open>
  The exceptions. \<open>TypeError\<close> carries the three values the source formats into its
  message: the type, the operation name and the parameter name. The specification calls
  this error \<open>ConfigurationError\<close>.
\<close>

datatype error = KeyError | AttributeError | TypeError string string string

text \<open>A parameter descriptor of an operation: \<open>param.name\<close>, \<open>param.cli_name\<close>, \<open>param.type\<close>.\<close>

record param =
  param_name :: string
  param_cli_name :: string
  param_type :: string

text \<open>
  \<open>operation.pagination\<close>: the entry \<open>input_token\<close> is one name or a list of names, the
  entry \<open>limit_key\<close> is optional.
\<close>

datatype input_token = Single string | Multiple "string list"

record pagination =
  pg_input_token :: input_token
  pg_limit_key :: "string option"

record operation =
  op_name :: string
  op_can_paginate :: bool
  op_pagination :: pagination
  op_params :: "param list"

text \<open>
  The object built by \<open>StringParameter(operation, name=name, type=parse_type)\<close>. The class
  belongs to botocore; its constructor stores the keyword arguments it is given.
\<close>

record string_parameter =
  sp_operation :: operation
  sp_name :: string
  sp_type :: string

text \<open>The fields \<open>PageArgument.__init__\<close> assigns.\<close>

record page_argument =
  pa_name :: string
  pa_argument_object :: string_parameter
  pa_documentation :: string
  pa_parse_type :: string

text \<open>
  An entry of the argument table is either an argument object of the CLI framework
  (opaque here, of type \<open>'a\<close>) or a \<open>PageArgument\<close>. The instance attribute
  \<open>_UNDOCUMENTED\<close> is \<open>None\<close> as long as nothing assigned it on the instance. The
  framework builds one argument object for each key, so an entry is a value of its key
  and setting the attribute through one key changes no other entry. The keys of the
  table are the CLI names, strings.
\<close>

datatype 'a argument = CLIArgument 'a | PageArgument page_argument

record 'a table_entry =
  entry_argument :: "'a argument"
  UNDOCUMENTED :: "bool option"

type_synonym 'a argument_table = "string \<rightharpoonup> 'a table_entry"

text \<open>
  The state \<open>unify_paging_params\<close> works on: the argument table and the handlers
  registered with \<open>operation.session\<close>. A handler registered by this module is
  \<open>partial(check_should_enable_pagination, tokens)\<close>; it is represented by the event name
  and the list \<open>tokens\<close> it is bound to.
\<close>

record 'a world =
  argument_table :: "'a argument_table"
  handlers :: "(string \<times> string option list) list"

subsection \<open>String helpers of Python\<close>

text \<open>\<open>s.lstrip('-')\<close> removes every leading hyphen.\<close>

definition lstrip_hyphen :: "string \<Rightarrow> string" where
  "lstrip_hyphen s = dropWhile (\<lambda>c. c = CHR ''-'') s"

text \<open>\<open>token.replace('-', '_')\<close> replaces every hyphen by an underscore.\<close>

definition replace_hyphen :: "string \<Rightarrow> string" where
  "replace_hyphen s = map (\<lambda>c. if c = CHR ''-'' then CHR ''_'' else c) s"

text \<open>
  \<open>s.replace(old, new)\<close> for a non-empty \<open>old\<close>: every occurrence, found from the left
  and not overlapping, is replaced.
\<close>

function str_replace :: "string \<Rightarrow> string \<Rightarrow> string \<Rightarrow> string" where
  "str_replace old new s =
     (if s = [] \<or> old = [] then s
      else if take (length old) s = old
        then new @ str_replace old new (drop (length old) s)
        else hd s # str_replace old new (tl s))"
  by pat_completeness auto
termination
  by (relation "measure (\<lambda>(old, new, s). length s)") auto

declare str_replace.simps [simp del]

text \<open>The two help texts, with the line breaks of the source.\<close>

definition STARTING_TOKEN_HELP :: string where
  "STARTING_TOKEN_HELP =
     CHR 0x0A # ''<p>A token to specify where to start paginating.  This is the'' @
     CHR 0x0A # ''<code>NextToken</code> from a previously truncated response.</p>'' @
     [CHR 0x0A]"

definition MAX_ITEMS_HELP :: string where
  "MAX_ITEMS_HELP =
     CHR 0x0A # ''<p>The total number of items to return.  If the total number'' @
     CHR 0x0A # ''of items available is more than the value specified in'' @
     CHR 0x0A # ''max-items then a <code>NextToken</code> will'' @
     CHR 0x0A # ''be provided in the output that you can use to resume pagination.'' @
     [CHR 0x0A]"

subsection \<open>Name mapping helpers\<close>

text \<open>
  \<open>_get_cli_name\<close>: the first parameter whose name is \<open>token_name\<close> gives the result; when
  the loop ends without a match the Python function returns \<open>None\<close>.
\<close>

fun get_cli_name :: "param list \<Rightarrow> string \<Rightarrow> string option" where
  "get_cli_name [] token_name = None"
| "get_cli_name (p # param_objects) token_name =
     (if param_name p = token_name then Some (lstrip_hyphen (param_cli_name p))
      else get_cli_name param_objects token_name)"

text \<open>\<open>_get_input_tokens\<close>: a single name becomes a list of one name.\<close>

definition get_input_tokens :: "operation \<Rightarrow> string list" where
  "get_input_tokens operation =
     (case pg_input_token (op_pagination operation) of
        Single tokens \<Rightarrow> [tokens]
      | Multiple tokens \<Rightarrow> tokens)"

text \<open>
  \<open>_get_all_cli_input_tokens\<close> is a generator: it yields one CLI name for each token, in
  the order of the tokens, and then, when \<open>limit_key\<close> is in the configuration, the CLI
  name of the limit key. The list below is the sequence of values it yields.
\<close>

fun yield_cli_names :: "param list \<Rightarrow> string list \<Rightarrow> string option list" where
  "yield_cli_names ps [] = []"
| "yield_cli_names ps (token_name # tokens) =
     get_cli_name ps token_name # yield_cli_names ps tokens"

definition get_all_cli_input_tokens :: "operation \<Rightarrow> string option list" where
  "get_all_cli_input_tokens operation =
     yield_cli_names (op_params operation) (get_input_tokens operation) @
     (case pg_limit_key (op_pagination operation) of
        None \<Rightarrow> []
      | Some key_name \<Rightarrow> [get_cli_name (op_params operation) key_name])"

subsection \<open>The page argument\<close>

text \<open>
  \<open>PageArgument.type_map\<close>: the two supported type names and the Python types they stand
  for.
\<close>

datatype py_type = Py_str | Py_int

definition type_map :: "string \<rightharpoonup> py_type" where
  "type_map = [''string'' \<mapsto> Py_str, ''integer'' \<mapsto> Py_int]"

text \<open>
  \<open>PageArgument.__init__\<close> has no \<open>raise\<close> and looks nothing up in \<open>type_map\<close>: it
  builds the \<open>StringParameter\<close> and assigns the fields. \<open>PageArgument_object\<close> is the
  instance with its fields assigned; \<open>PageArgument_init\<close> is the outcome of the
  constructor call, a sum so that a failure of the construction can be spoken about.
\<close>

definition PageArgument_object ::
  "string \<Rightarrow> string \<Rightarrow> operation \<Rightarrow> string \<Rightarrow> page_argument" where
  "PageArgument_object name documentation operation parse_type =
     \<lparr>pa_name = name,
      pa_argument_object =
        \<lparr>sp_operation = operation, sp_name = name, sp_type = parse_type\<rparr>,
      pa_documentation = documentation,
      pa_parse_type = parse_type\<rparr>"

definition PageArgument_init ::
  "string \<Rightarrow> string \<Rightarrow> operation \<Rightarrow> string \<Rightarrow> error + page_argument" where
  "PageArgument_init name documentation operation parse_type =
     Inr (PageArgument_object name documentation operation parse_type)"

definition cli_name :: "page_argument \<Rightarrow> string" where
  "cli_name self = ''--'' @ pa_name self"

definition cli_type_name :: "page_argument \<Rightarrow> string" where
  "cli_type_name self = pa_parse_type self"

definition required :: "page_argument \<Rightarrow> bool" where
  "required self = False"

definition documentation :: "page_argument \<Rightarrow> string" where
  "documentation self = pa_documentation self"

text \<open>
  The parser is the list of the arguments added to it. The property \<open>py_name\<close> is
  inherited from \<open>BaseCLIArgument\<close>, which is not part of this module: it is the
  parameter \<open>py_name\<close> of the two methods that read it. The subscript
  \<open>self.type_map[self._parse_type]\<close> raises \<open>KeyError\<close> for a type that is not in the map.
\<close>

record parser_argument =
  parg_flag :: string
  parg_dest :: string
  parg_type :: py_type

definition add_to_parser ::
  "(page_argument \<Rightarrow> string) \<Rightarrow> page_argument \<Rightarrow> parser_argument list
     \<Rightarrow> error + parser_argument list" where
  "add_to_parser py_name self parser =
     (case type_map (pa_parse_type self) of
        None \<Rightarrow> Inl KeyError
      | Some t \<Rightarrow>
          Inr (parser @ [\<lparr>parg_flag = cli_name self, parg_dest = py_name self, parg_type = t\<rparr>]))"

text \<open>\<open>add_to_params\<close>: a value of \<open>None\<close> is \<open>None\<close> here, any other value \<open>v\<close> is \<open>Some v\<close>.\<close>

definition add_to_params ::
  "(page_argument \<Rightarrow> string) \<Rightarrow> page_argument \<Rightarrow> (string \<rightharpoonup> 'v) \<Rightarrow> 'v option
     \<Rightarrow> (string \<rightharpoonup> 'v)" where
  "add_to_params py_name self parameters value =
     (case value of
        None \<Rightarrow> parameters
      | Some v \<Rightarrow> parameters(py_name self \<mapsto> v))"

subsection \<open>Hiding the service specific arguments\<close>

text \<open>
  \<open>_remove_existing_paging_arguments\<close>: for each yielded CLI name the subscript
  \<open>argument_table[cli_name]\<close> is evaluated and \<open>_UNDOCUMENTED\<close> is set on the entry found. The
  keys of the table are strings, so the subscript raises \<open>KeyError\<close> for \<open>None\<close> as it does
  for a name that is not a key; the entries marked before that stay marked.
\<close>

fun mark_undocumented ::
  "'a argument_table \<Rightarrow> string option list \<Rightarrow> (error + unit) \<times> 'a argument_table" where
  "mark_undocumented tbl [] = (Inr (), tbl)"
| "mark_undocumented tbl (None # names) = (Inl KeyError, tbl)"
| "mark_undocumented tbl (Some n # names) =
     (case tbl n of
        None \<Rightarrow> (Inl KeyError, tbl)
      | Some e \<Rightarrow> mark_undocumented (tbl(n \<mapsto> e\<lparr>UNDOCUMENTED := Some True\<rparr>)) names)"

definition remove_existing_paging_arguments ::
  "'a argument_table \<Rightarrow> operation \<Rightarrow> (error + unit) \<times> 'a argument_table" where
  "remove_existing_paging_arguments tbl operation =
     mark_undocumented tbl (get_all_cli_input_tokens operation)"

subsection \<open>The override check\<close>

text \<open>
  \<open>check_should_enable_pagination\<close>. The parsed arguments are a namespace: an attribute
  that is missing is \<open>None\<close> in the map, an attribute whose value is Python's \<open>None\<close> is
  \<open>Some None\<close>. \<open>token.replace\<close> on a token that is \<open>None\<close> and \<open>getattr\<close> on a missing
  attribute raise \<open>AttributeError\<close>. The loop has no \<open>break\<close>: it visits every token.
  The third argument and result component is \<open>parsed_globals.paginate\<close>.
\<close>

fun check_should_enable_pagination ::
  "string option list \<Rightarrow> (string \<rightharpoonup> 'v option) \<Rightarrow> bool \<Rightarrow> (error + unit) \<times> bool" where
  "check_should_enable_pagination [] parsed_args paginate = (Inr (), paginate)"
| "check_should_enable_pagination (None # input_tokens) parsed_args paginate =
     (Inl AttributeError, paginate)"
| "check_should_enable_pagination (Some token # input_tokens) parsed_args paginate =
     (case parsed_args (replace_hyphen token) of
        None \<Rightarrow> (Inl AttributeError, paginate)
      | Some None \<Rightarrow> check_should_enable_pagination input_tokens parsed_args paginate
      | Some (Some v) \<Rightarrow> check_should_enable_pagination input_tokens parsed_args False)"

subsection \<open>Unifying the paging parameters\<close>

text \<open>The loop that looks for the parameter named by the limit key.\<close>

fun find_limit_param :: "param list \<Rightarrow> string \<Rightarrow> param option" where
  "find_limit_param [] key = None"
| "find_limit_param (p # ps) key =
     (if param_name p = key then Some p else find_limit_param ps key)"

text \<open>
  \<open>type_ = limit_param and limit_param.type or 'integer'\<close>: an empty type string is
  falsy, so it gives \<open>'integer'\<close> as a missing parameter does.
\<close>

definition limit_type :: "param option \<Rightarrow> string" where
  "limit_type limit_param =
     (case limit_param of
        None \<Rightarrow> ''integer''
      | Some p \<Rightarrow> if param_type p = [] then ''integer'' else param_type p)"

definition page_entry :: "page_argument \<Rightarrow> 'a table_entry" where
  "page_entry pa = \<lparr>entry_argument = PageArgument pa, UNDOCUMENTED = None\<rparr>"

text \<open>
  The last statement of \<open>unify_paging_params\<close>:
  \<open>argument_table['max-items'] = PageArgument('max-items', MAX_ITEMS_HELP, operation, parse_type=type_)\<close>.
\<close>

definition set_max_items ::
  "'a world \<Rightarrow> operation \<Rightarrow> string \<Rightarrow> (error + unit) \<times> 'a world" where
  "set_max_items w operation parse_type =
     (case PageArgument_init ''max-items'' MAX_ITEMS_HELP operation parse_type of
        Inl e \<Rightarrow> (Inl e, w)
      | Inr max_items \<Rightarrow>
          (Inr (), w\<lparr>argument_table := (argument_table w)(''max-items'' \<mapsto> page_entry max_items)\<rparr>))"

text \<open>
  The second half of \<open>unify_paging_params\<close>, from the comment "Try to get the pagination
  parameter type" on: the search for the limit parameter, the type check with its
  \<open>raise\<close>, and the entry \<open>max-items\<close>.
\<close>

definition add_max_items ::
  "'a world \<Rightarrow> operation \<Rightarrow> (error + unit) \<times> 'a world" where
  "add_max_items w operation =
     (let limit_param =
            (case pg_limit_key (op_pagination operation) of
               None \<Rightarrow> None
             | Some key \<Rightarrow> find_limit_param (op_params operation) key);
          parse_type = limit_type limit_param
      in case limit_param of
           None \<Rightarrow> set_max_items w operation parse_type
         | Some p \<Rightarrow>
             if param_type p \<notin> dom type_map
             then (Inl (TypeError parse_type (op_name operation) (param_name p)), w)
             else set_max_items w operation parse_type)"

text \<open>
  \<open>unify_paging_params\<close>, statement by statement: the early return, the hiding, the
  registration of the handler, the entry \<open>starting-token\<close>, and then the second half.
\<close>

definition unify_paging_params ::
  "'a world \<Rightarrow> operation \<Rightarrow> string \<Rightarrow> (error + unit) \<times> 'a world" where
  "unify_paging_params w operation event_name =
     (if \<not> op_can_paginate operation then (Inr (), w)
      else
        case remove_existing_paging_arguments (argument_table w) operation of
          (Inl e, tbl1) \<Rightarrow> (Inl e, w\<lparr>argument_table := tbl1\<rparr>)
        | (Inr u, tbl1) \<Rightarrow>
            (let parsed_args_event =
                   str_replace ''building-argument-table.'' ''operation-args-parsed.'' event_name;
                 hs = handlers w @ [(parsed_args_event, get_all_cli_input_tokens operation)];
                 w1 = w\<lparr>argument_table := tbl1, handlers := hs\<rparr>
             in (case PageArgument_init ''starting-token'' STARTING_TOKEN_HELP operation ''string'' of
                   Inl e \<Rightarrow> (Inl e, w1)
                 | Inr starting_token \<Rightarrow>
                     add_max_items
                       (w1\<lparr>argument_table := tbl1(''starting-token'' \<mapsto> page_entry starting_token)\<rparr>)
                       operation)))"

subsection \<open>Concrete operations and tables\<close>

text \<open>
  Operations and an argument table as the service descriptions give them, used below
  to run the functions on concrete inputs. \<open>list_things\<close> pages with one input token and
  no limit key; \<open>list_flags\<close> has a limit key whose parameter is declared boolean;
  \<open>list_markers\<close> names an input token that has no parameter descriptor; \<open>describe_thing\<close>
  does not page; \<open>list_parts\<close> has two input tokens and a limit key.
\<close>

definition next_token_param :: param where
  "next_token_param =
     \<lparr>param_name = ''NextToken'', param_cli_name = ''--next-token'', param_type = ''string''\<rparr>"

definition max_results_param :: "string \<Rightarrow> param" where
  "max_results_param ty =
     \<lparr>param_name = ''MaxResults'', param_cli_name = ''--max-results'', param_type = ty\<rparr>"

definition list_things :: operation where
  "list_things =
     \<lparr>op_name = ''ListThings'', op_can_paginate = True,
      op_pagination = \<lparr>pg_input_token = Single ''NextToken'', pg_limit_key = None\<rparr>,
      op_params = [next_token_param, max_results_param ''integer'']\<rparr>"

definition list_flags :: operation where
  "list_flags =
     \<lparr>op_name = ''ListFlags'', op_can_paginate = True,
      op_pagination = \<lparr>pg_input_token = Single ''NextToken'', pg_limit_key = Some ''MaxResults''\<rparr>,
      op_params = [next_token_param, max_results_param ''boolean'']\<rparr>"

definition list_markers :: operation where
  "list_markers =
     \<lparr>op_name = ''ListMarkers'', op_can_paginate = True,
      op_pagination = \<lparr>pg_input_token = Single ''Marker'', pg_limit_key = None\<rparr>,
      op_params = [max_results_param ''integer'']\<rparr>"

definition describe_thing :: operation where
  "describe_thing =
     \<lparr>op_name = ''DescribeThing'', op_can_paginate = False,
      op_pagination = \<lparr>pg_input_token = Single ''NextToken'', pg_limit_key = None\<rparr>,
      op_params = [next_token_param]\<rparr>"

definition list_parts :: operation where
  "list_parts =
     \<lparr>op_name = ''ListParts'', op_can_paginate = True,
      op_pagination =
        \<lparr>pg_input_token = Multiple [''marker'', ''marker2''], pg_limit_key = Some ''max_results''\<rparr>,
      op_params =
        [\<lparr>param_name = ''marker'', param_cli_name = ''--marker'', param_type = ''string''\<rparr>,
         \<lparr>param_name = ''marker2'', param_cli_name = ''--marker2'', param_type = ''string''\<rparr>,
         \<lparr>param_name = ''max_results'', param_cli_name = ''--max-results'',
          param_type = ''integer''\<rparr>]\<rparr>"

definition service_entry :: "nat \<Rightarrow> nat table_entry" where
  "service_entry i = \<lparr>entry_argument = CLIArgument i, UNDOCUMENTED = None\<rparr>"

definition service_table :: "nat argument_table" where
  "service_table = [''next-token'' \<mapsto> service_entry 0, ''max-results'' \<mapsto> service_entry 1]"

definition service_world :: "nat world" where
  "service_world = \<lparr>argument_table = service_table, handlers = []\<rparr>"

text \<open>The same table with an argument \<open>max-items\<close> of the service in it.\<close>

definition crowded_world :: "nat world" where
  "crowded_world =
     \<lparr>argument_table = service_table(''max-items'' \<mapsto> service_entry 2), handlers = []\<rparr>"

definition hyphen_py_name :: "page_argument \<Rightarrow> string" where
  "hyphen_py_name self = replace_hyphen (pa_name self)"

section \<open>Properties\<close>

subsection \<open>Auxiliary facts\<close>

lemma dom_type_map: "dom type_map = {''string'', ''integer''}"
  by (auto simp: type_map_def split: if_splits)

lemma type_map_None_iff: "(type_map ty = None) = (ty \<notin> {''string'', ''integer''})"
  using dom_type_map by (metis domIff)

lemma yield_cli_names_map: "yield_cli_names ps tokens = map (get_cli_name ps) tokens"
  by (induction tokens) simp_all

lemma get_cli_name_None:
  "token_name \<notin> param_name ` set ps \<Longrightarrow> get_cli_name ps token_name = None"
  by (induction ps) auto

lemma mark_undocumented_dom: "dom (snd (mark_undocumented tbl names)) = dom tbl"
proof (induction tbl names rule: mark_undocumented.induct)
  case (3 tbl n names)
  show ?case
  proof (cases "tbl n")
    case None
    then show ?thesis by simp
  next
    case (Some e)
    have a: "dom (tbl(n \<mapsto> e\<lparr>UNDOCUMENTED := Some True\<rparr>)) = dom tbl"
      using Some by auto
    have b: "dom (snd (mark_undocumented (tbl(n \<mapsto> e\<lparr>UNDOCUMENTED := Some True\<rparr>)) names))
               = dom (tbl(n \<mapsto> e\<lparr>UNDOCUMENTED := Some True\<rparr>))"
      using 3 [OF Some] .
    have c: "mark_undocumented tbl (Some n # names)
               = mark_undocumented (tbl(n \<mapsto> e\<lparr>UNDOCUMENTED := Some True\<rparr>)) names"
      using Some by simp
    show ?thesis by (simp only: a b c)
  qed
qed simp_all

lemma mark_undocumented_None:
  "None \<in> set names \<Longrightarrow> fst (mark_undocumented tbl names) = Inl KeyError"
  by (induction tbl names rule: mark_undocumented.induct) (auto split: option.splits)

text \<open>
  When the hiding succeeds, every name it went through is a string and a key of the
  table. \<open>unify_paging_params\<close> registers the handler only after the hiding, so the
  names a registered handler is bound to are keys of the argument table.
\<close>

lemma mark_undocumented_keys:
  "fst (mark_undocumented tbl names) = Inr () \<Longrightarrow>
     \<exists>ns. names = map Some ns \<and> set ns \<subseteq> dom tbl"
proof (induction tbl names rule: mark_undocumented.induct)
  case (1 tbl)
  then show ?case by simp
next
  case (2 tbl names)
  then show ?case by simp
next
  case (3 tbl n names)
  show ?case
  proof (cases "tbl n")
    case None
    with 3(2) show ?thesis by simp
  next
    case (Some e)
    let ?tbl = "tbl(n \<mapsto> e\<lparr>UNDOCUMENTED := Some True\<rparr>)"
    have "fst (mark_undocumented ?tbl names) = Inr ()"
      using 3(2) Some by simp
    from 3(1) [OF Some this] obtain ns where ns: "names = map Some ns" "set ns \<subseteq> dom ?tbl"
      by blast
    have "dom ?tbl = dom tbl"
      using Some by auto
    with ns Some have "Some n # names = map Some (n # ns) \<and> set (n # ns) \<subseteq> dom tbl"
      by auto
    then show ?thesis by (rule exI)
  qed
qed






lemma list_flags_tokens:
  "get_all_cli_input_tokens list_flags = [Some ''next-token'', Some ''max-results'']"
  by (simp add: get_all_cli_input_tokens_def get_input_tokens_def list_flags_def
      next_token_param_def max_results_param_def lstrip_hyphen_def)

lemma list_flags_hidden:
  "remove_existing_paging_arguments service_table list_flags =
     (Inr (), [''next-token'' \<mapsto> (service_entry 0)\<lparr>UNDOCUMENTED := Some True\<rparr>,
               ''max-results'' \<mapsto> (service_entry 1)\<lparr>UNDOCUMENTED := Some True\<rparr>])"
  by (simp add: remove_existing_paging_arguments_def list_flags_tokens service_table_def fun_upd_twist)

lemma list_things_tokens: "get_all_cli_input_tokens list_things = [Some ''next-token'']"
  by (simp add: get_all_cli_input_tokens_def get_input_tokens_def list_things_def
      next_token_param_def max_results_param_def lstrip_hyphen_def)

lemma list_markers_tokens: "get_all_cli_input_tokens list_markers = [None]"
  by (simp add: get_all_cli_input_tokens_def get_input_tokens_def list_markers_def
      max_results_param_def)

subsection \<open>The claims\<close>

text \<open>
  C7. For an operation with \<open>can_paginate\<close> false, \<open>unify_paging_params\<close> returns without
  an error and leaves the state as it was: the argument table is the same and no handler
  has been registered.
\<close>

theorem unify_not_paginating_identity:
  "\<not> op_can_paginate operation \<Longrightarrow>
     unify_paging_params w operation event_name = (Inr (), w)"
  by (simp add: unify_paging_params_def)

theorem unify_not_paginating_identity_witness:
  "\<not> op_can_paginate describe_thing \<and>
   unify_paging_params service_world describe_thing ''building-argument-table.things.describe-thing''
     = (Inr (), service_world)"
  using unify_not_paginating_identity
    [of describe_thing service_world "''building-argument-table.things.describe-thing''"]
  by (simp add: describe_thing_def)

text \<open>
  C1, as the code has it. Let the operation page, let its limit key name a parameter
  whose declared type is neither \<open>string\<close> nor \<open>integer\<close>, and let the hiding of the
  service specific arguments succeed. Then \<open>unify_paging_params\<close> raises the
  unsupported-type error (Python's \<open>TypeError\<close>, the specification's
  \<open>ConfigurationError\<close>) with the type, the operation name and the parameter name, and
  the state it leaves is not the one it found: the arguments are hidden, the handler is
  registered and \<open>starting-token\<close> is in the table. Only the entry \<open>max-items\<close> has not
  been written.
\<close>

theorem unify_unsupported_type_raises:
  assumes "op_can_paginate operation"
    and "pg_limit_key (op_pagination operation) = Some key"
    and "find_limit_param (op_params operation) key = Some p"
    and "param_type p \<notin> {''string'', ''integer''}"
    and "remove_existing_paging_arguments (argument_table w) operation = (Inr (), tbl1)"
  shows "unify_paging_params w operation event_name =
     (Inl (TypeError (limit_type (Some p)) (op_name operation) (param_name p)),
      w\<lparr>argument_table :=
           tbl1(''starting-token'' \<mapsto>
             page_entry (PageArgument_object ''starting-token'' STARTING_TOKEN_HELP operation ''string'')),
         handlers := handlers w @
           [(str_replace ''building-argument-table.'' ''operation-args-parsed.'' event_name,
             get_all_cli_input_tokens operation)]\<rparr>)"
proof -
  have "param_type p \<notin> dom type_map"
    using assms(4) by (simp add: dom_type_map)
  then show ?thesis
    using assms(1,2,3,5)
    by (simp add: unify_paging_params_def add_max_items_def set_max_items_def PageArgument_init_def Let_def)
qed

text \<open>The theorem at the operation \<open>list_flags\<close>, whose limit parameter is boolean.\<close>

theorem unify_unsupported_type_raises_witness:
  "unify_paging_params service_world list_flags ''building-argument-table.things.list-flags'' =
     (Inl (TypeError ''boolean'' ''ListFlags'' ''MaxResults''),
      \<lparr>argument_table =
         [''next-token'' \<mapsto> (service_entry 0)\<lparr>UNDOCUMENTED := Some True\<rparr>,
          ''max-results'' \<mapsto> (service_entry 1)\<lparr>UNDOCUMENTED := Some True\<rparr>,
          ''starting-token'' \<mapsto>
             page_entry (PageArgument_object ''starting-token'' STARTING_TOKEN_HELP list_flags ''string'')],
       handlers =
         [(str_replace ''building-argument-table.'' ''operation-args-parsed.''
             ''building-argument-table.things.list-flags'',
           [Some ''next-token'', Some ''max-results''])]\<rparr>)"
proof -
  have h1: "op_can_paginate list_flags" by (simp add: list_flags_def)
  have h2: "pg_limit_key (op_pagination list_flags) = Some ''MaxResults''"
    by (simp add: list_flags_def)
  have h3: "find_limit_param (op_params list_flags) ''MaxResults'' = Some (max_results_param ''boolean'')"
    by (simp add: list_flags_def next_token_param_def max_results_param_def)
  have h4: "param_type (max_results_param ''boolean'') \<notin> {''string'', ''integer''}"
    by (simp add: max_results_param_def)
  have h5: "remove_existing_paging_arguments (argument_table service_world) list_flags =
     (Inr (), [''next-token'' \<mapsto> (service_entry 0)\<lparr>UNDOCUMENTED := Some True\<rparr>,
               ''max-results'' \<mapsto> (service_entry 1)\<lparr>UNDOCUMENTED := Some True\<rparr>])"
    using list_flags_hidden by (simp add: service_world_def)
  have n: "op_name list_flags = ''ListFlags''" by (simp add: list_flags_def)
  show ?thesis
    using unify_unsupported_type_raises [OF h1 h2 h3 h4 h5, of "''building-argument-table.things.list-flags''"]
    by (simp add: limit_type_def max_results_param_def n list_flags_tokens service_world_def)
qed

text \<open>
  The claim that the argument table is left without any mutation fails at the same
  input: the error is raised, and \<open>starting-token\<close> has been inserted and \<open>next-token\<close>
  has been marked undocumented.
\<close>

theorem unify_unsupported_type_mutates_table:
  "fst (unify_paging_params service_world list_flags ''building-argument-table.things.list-flags'')
     = Inl (TypeError ''boolean'' ''ListFlags'' ''MaxResults'') \<and>
   argument_table service_world ''starting-token'' = None \<and>
   argument_table (snd (unify_paging_params service_world list_flags
       ''building-argument-table.things.list-flags'')) ''starting-token''
     = Some (page_entry (PageArgument_object ''starting-token'' STARTING_TOKEN_HELP list_flags ''string'')) \<and>
   argument_table service_world ''next-token'' = Some (service_entry 0) \<and>
   argument_table (snd (unify_paging_params service_world list_flags
       ''building-argument-table.things.list-flags'')) ''next-token''
     = Some ((service_entry 0)\<lparr>UNDOCUMENTED := Some True\<rparr>) \<and>
   argument_table (snd (unify_paging_params service_world list_flags
       ''building-argument-table.things.list-flags'')) \<noteq> argument_table service_world"
proof -
  let ?r = "unify_paging_params service_world list_flags ''building-argument-table.things.list-flags''"
  have r: "?r = (Inl (TypeError ''boolean'' ''ListFlags'' ''MaxResults''),
      \<lparr>argument_table =
         (snd (remove_existing_paging_arguments service_table list_flags))(''starting-token'' \<mapsto>
             page_entry (PageArgument_object ''starting-token'' STARTING_TOKEN_HELP list_flags ''string'')),
       handlers =
         [(str_replace ''building-argument-table.'' ''operation-args-parsed.''
             ''building-argument-table.things.list-flags'',
           get_all_cli_input_tokens list_flags)]\<rparr>)"
    by (simp add: unify_paging_params_def add_max_items_def set_max_items_def PageArgument_init_def Let_def
        list_flags_hidden service_world_def limit_type_def dom_type_map)
       (simp add: list_flags_def next_token_param_def max_results_param_def dom_type_map)
  have a: "fst ?r = Inl (TypeError ''boolean'' ''ListFlags'' ''MaxResults'')"
    by (simp only: r fst_conv)
  have b: "argument_table service_world ''starting-token'' = None"
    by (simp add: service_world_def service_table_def)
  have c: "argument_table (snd ?r) ''starting-token''
     = Some (page_entry (PageArgument_object ''starting-token'' STARTING_TOKEN_HELP list_flags ''string''))"
    by (simp add: r)
  have d: "argument_table service_world ''next-token'' = Some (service_entry 0)"
    by (simp add: service_world_def service_table_def)
  have e: "argument_table (snd ?r) ''next-token'' = Some ((service_entry 0)\<lparr>UNDOCUMENTED := Some True\<rparr>)"
    by (simp add: r list_flags_hidden)
  have f: "argument_table (snd ?r) \<noteq> argument_table service_world"
  proof
    assume "argument_table (snd ?r) = argument_table service_world"
    then have "argument_table (snd ?r) ''starting-token'' = argument_table service_world ''starting-token''"
      by (rule arg_cong)
    with b c show False by simp
  qed
  from a b c d e f show ?thesis by blast
qed

text \<open>
  C2. The parsed arguments are the namespace the parser produces: every hidden name, in
  its parsed-argument key form (hyphens replaced by underscores), is an attribute of it,
  with the value \<open>None\<close> when the user did not pass it. For every list of hidden names
  and every such namespace \<open>check_should_enable_pagination\<close> returns without an error,
  sets the pagination flag to false if at least one hidden name has a value other than
  \<open>None\<close>, and leaves the flag as it was if every such value is \<open>None\<close>.
\<close>

theorem override_check_flag:
  assumes "\<forall>n\<in>set hidden_names. replace_hyphen n \<in> dom parsed_args"
  shows "check_should_enable_pagination (map Some hidden_names) parsed_args paginate =
     (Inr (),
      if (\<exists>n\<in>set hidden_names. \<exists>v. parsed_args (replace_hyphen n) = Some (Some v))
      then False else paginate)"
  using assms
proof (induction hidden_names arbitrary: paginate)
  case Nil
  then show ?case by simp
next
  case (Cons n names)
  then obtain a where a: "parsed_args (replace_hyphen n) = Some a"
    by auto
  from Cons have IH: "\<And>g. check_should_enable_pagination (map Some names) parsed_args g =
     (Inr (),
      if (\<exists>n\<in>set names. \<exists>v. parsed_args (replace_hyphen n) = Some (Some v)) then False else g)"
    by simp
  show ?case
    by (cases a) (simp_all add: a IH)
qed

text \<open>
  The theorem at the hidden names \<open>["next-token"]\<close>: with \<open>next_token = "abc"\<close> the flag
  becomes false, with \<open>next_token = None\<close> it stays true.
\<close>

theorem override_check_flag_witness:
  "check_should_enable_pagination [Some ''next-token'']
     [''next_token'' \<mapsto> Some ''abc''] True = (Inr (), False) \<and>
   check_should_enable_pagination [Some ''next-token'']
     [''next_token'' \<mapsto> (None :: string option)] True = (Inr (), True)"
proof -
  have k: "replace_hyphen ''next-token'' = ''next_token''"
    by (simp add: replace_hyphen_def)
  have h1: "\<forall>n\<in>set [''next-token'']. replace_hyphen n \<in> dom [''next_token'' \<mapsto> Some ''abc'']"
    by (simp add: k)
  have h2: "\<forall>n\<in>set [''next-token'']. replace_hyphen n \<in> dom [''next_token'' \<mapsto> (None :: string option)]"
    by (simp add: k)
  show ?thesis
    using override_check_flag [OF h1, of True] override_check_flag [OF h2, of True]
    by (simp add: k)
qed



text \<open>
  C3, as the code has it. Let the operation page, let its input token be a single name
  and let there be no limit key. Let the CLI name of the token be the key of an entry of the argument table
  (the pre-existing entry), and let \<open>starting-token\<close> and \<open>max-items\<close> not be keys of the
  table yet (the two entries are new). Then \<open>unify_paging_params\<close> raises nothing; the
  table it leaves is the old one with that one entry marked undocumented, still under
  its key, and with the two entries \<open>starting-token\<close> and \<open>max-items\<close> added, so no other
  pre-existing entry has changed and the keys are the old ones and the two new ones;
  \<open>starting-token\<close> has the type \<open>string\<close> and \<open>max-items\<close> the type \<open>integer\<close>. The handler
  registered is bound to the one hidden name.
\<close>

theorem unify_single_token_no_limit:
  assumes "op_can_paginate operation"
    and "get_input_tokens operation = [token]"
    and "pg_limit_key (op_pagination operation) = None"
    and "get_cli_name (op_params operation) token = Some n"
    and "argument_table w n = Some e"
    and "argument_table w ''starting-token'' = None"
    and "argument_table w ''max-items'' = None"
  shows "fst (unify_paging_params w operation event_name) = Inr () \<and>
    argument_table (snd (unify_paging_params w operation event_name)) =
      (argument_table w)
        (n \<mapsto> e\<lparr>UNDOCUMENTED := Some True\<rparr>,
         ''starting-token'' \<mapsto>
            page_entry (PageArgument_object ''starting-token'' STARTING_TOKEN_HELP operation ''string''),
         ''max-items'' \<mapsto>
            page_entry (PageArgument_object ''max-items'' MAX_ITEMS_HELP operation ''integer'')) \<and>
    n \<noteq> ''starting-token'' \<and> n \<noteq> ''max-items'' \<and>
    dom (argument_table (snd (unify_paging_params w operation event_name))) =
      dom (argument_table w) \<union> {''starting-token'', ''max-items''} \<and>
    {k \<in> dom (argument_table w).
       argument_table (snd (unify_paging_params w operation event_name)) k \<noteq> argument_table w k}
      \<subseteq> {n} \<and>
    map_option UNDOCUMENTED (argument_table (snd (unify_paging_params w operation event_name)) n)
      = Some (Some True) \<and>
    cli_type_name (PageArgument_object ''max-items'' MAX_ITEMS_HELP operation ''integer'') = ''integer'' \<and>
    handlers (snd (unify_paging_params w operation event_name)) =
      handlers w @
        [(str_replace ''building-argument-table.'' ''operation-args-parsed.'' event_name, [Some n])]"
proof -
  let ?r = "unify_paging_params w operation event_name"
  let ?st = "page_entry (PageArgument_object ''starting-token'' STARTING_TOKEN_HELP operation ''string'') :: 'a table_entry"
  let ?mi = "page_entry (PageArgument_object ''max-items'' MAX_ITEMS_HELP operation ''integer'') :: 'a table_entry"
  have tokens: "get_all_cli_input_tokens operation = [Some n]"
    using assms(2,3,4) by (simp add: get_all_cli_input_tokens_def)
  have hide: "remove_existing_paging_arguments (argument_table w) operation
      = (Inr (), (argument_table w)(n \<mapsto> e\<lparr>UNDOCUMENTED := Some True\<rparr>))"
    using assms(5) by (simp add: remove_existing_paging_arguments_def tokens)
  have r: "?r = (Inr (),
      w\<lparr>argument_table :=
           (argument_table w)(n \<mapsto> e\<lparr>UNDOCUMENTED := Some True\<rparr>,
              ''starting-token'' \<mapsto> ?st, ''max-items'' \<mapsto> ?mi),
         handlers := handlers w @
           [(str_replace ''building-argument-table.'' ''operation-args-parsed.'' event_name, [Some n])]\<rparr>)"
    using assms(1,3)
    by (simp add: unify_paging_params_def add_max_items_def set_max_items_def PageArgument_init_def Let_def
        hide tokens limit_type_def)
  have n1: "n \<noteq> ''starting-token''" using assms(5,6) by auto
  have n2: "n \<noteq> ''max-items''" using assms(5,7) by auto
  have a: "fst ?r = Inr ()" by (simp only: r fst_conv)
  have b: "argument_table (snd ?r) =
      (argument_table w)(n \<mapsto> e\<lparr>UNDOCUMENTED := Some True\<rparr>,
              ''starting-token'' \<mapsto> ?st, ''max-items'' \<mapsto> ?mi)"
    by (simp add: r)
  have c: "dom (argument_table (snd ?r)) = dom (argument_table w) \<union> {''starting-token'', ''max-items''}"
    unfolding b using assms(5) by auto
  have d: "{k \<in> dom (argument_table w). argument_table (snd ?r) k \<noteq> argument_table w k} \<subseteq> {n}"
    unfolding b using assms(6,7) by auto
  have e: "map_option UNDOCUMENTED (argument_table (snd ?r) n) = Some (Some True)"
    unfolding b using n1 n2 by simp
  have f: "cli_type_name (PageArgument_object ''max-items'' MAX_ITEMS_HELP operation ''integer'') = ''integer''"
    by (simp add: cli_type_name_def PageArgument_object_def)
  have g: "handlers (snd ?r) = handlers w @
        [(str_replace ''building-argument-table.'' ''operation-args-parsed.'' event_name, [Some n])]"
    by (simp add: r)
  from a b n1 n2 c d e f g show ?thesis by blast
qed

text \<open>The theorem at the operation \<open>list_things\<close> and the table of its two arguments.\<close>

theorem unify_single_token_no_limit_witness:
  "fst (unify_paging_params service_world list_things ''building-argument-table.things.list-things'')
     = Inr () \<and>
   argument_table (snd (unify_paging_params service_world list_things
       ''building-argument-table.things.list-things'')) =
     [''next-token'' \<mapsto> (service_entry 0)\<lparr>UNDOCUMENTED := Some True\<rparr>,
      ''max-results'' \<mapsto> service_entry 1,
      ''starting-token'' \<mapsto>
         page_entry (PageArgument_object ''starting-token'' STARTING_TOKEN_HELP list_things ''string''),
      ''max-items'' \<mapsto>
         page_entry (PageArgument_object ''max-items'' MAX_ITEMS_HELP list_things ''integer'')]"
proof -
  have h1: "op_can_paginate list_things" by (simp add: list_things_def)
  have h2: "get_input_tokens list_things = [''NextToken'']"
    by (simp add: get_input_tokens_def list_things_def)
  have h3: "pg_limit_key (op_pagination list_things) = None" by (simp add: list_things_def)
  have h4: "get_cli_name (op_params list_things) ''NextToken'' = Some ''next-token''"
    by (simp add: list_things_def next_token_param_def lstrip_hyphen_def)
  have h5: "argument_table service_world ''next-token'' = Some (service_entry 0)"
    by (simp add: service_world_def service_table_def)
  have h6: "argument_table service_world ''starting-token'' = None"
    by (simp add: service_world_def service_table_def)
  have h7: "argument_table service_world ''max-items'' = None"
    by (simp add: service_world_def service_table_def)
  have t: "(argument_table service_world)(''next-token'' \<mapsto> (service_entry 0)\<lparr>UNDOCUMENTED := Some True\<rparr>)
      = [''next-token'' \<mapsto> (service_entry 0)\<lparr>UNDOCUMENTED := Some True\<rparr>,
         ''max-results'' \<mapsto> service_entry 1]"
    by (simp add: service_world_def service_table_def fun_upd_twist)
  show ?thesis
    using unify_single_token_no_limit [OF h1 h2 h3 h4 h5 h6 h7,
        of "''building-argument-table.things.list-things''"]
    by (simp only: t)
qed

text \<open>
  Without these two conditions the claim fails. At \<open>list_markers\<close>, which pages with a
  single input token and no limit key, the token has no argument in the table:
  \<open>unify_paging_params\<close> raises \<open>KeyError\<close> and the table is as it was, nothing hidden
  and nothing inserted. At \<open>list_things\<close> with a table that already has an argument
  \<open>max-items\<close>, that entry is overwritten and \<open>starting-token\<close> is the only new key.
\<close>

theorem unify_single_token_entry_missing_or_overwritten:
  "op_can_paginate list_markers \<and>
   pg_input_token (op_pagination list_markers) = Single ''Marker'' \<and>
   pg_limit_key (op_pagination list_markers) = None \<and>
   fst (unify_paging_params service_world list_markers ''building-argument-table.things.list-markers'')
     = Inl KeyError \<and>
   argument_table (snd (unify_paging_params service_world list_markers
       ''building-argument-table.things.list-markers'')) = argument_table service_world \<and>
   op_can_paginate list_things \<and>
   pg_input_token (op_pagination list_things) = Single ''NextToken'' \<and>
   pg_limit_key (op_pagination list_things) = None \<and>
   fst (unify_paging_params crowded_world list_things ''building-argument-table.things.list-things'')
     = Inr () \<and>
   argument_table crowded_world ''max-items'' = Some (service_entry 2) \<and>
   argument_table (snd (unify_paging_params crowded_world list_things
       ''building-argument-table.things.list-things'')) ''max-items''
     = Some (page_entry (PageArgument_object ''max-items'' MAX_ITEMS_HELP list_things ''integer'')) \<and>
   dom (argument_table (snd (unify_paging_params crowded_world list_things
       ''building-argument-table.things.list-things''))) - dom (argument_table crowded_world)
     = {''starting-token''}"
proof -
  let ?r1 = "unify_paging_params service_world list_markers ''building-argument-table.things.list-markers''"
  let ?r2 = "unify_paging_params crowded_world list_things ''building-argument-table.things.list-things''"
  have m: "op_can_paginate list_markers \<and>
      pg_input_token (op_pagination list_markers) = Single ''Marker'' \<and>
      pg_limit_key (op_pagination list_markers) = None"
    by (simp add: list_markers_def)
  have t: "op_can_paginate list_things \<and>
      pg_input_token (op_pagination list_things) = Single ''NextToken'' \<and>
      pg_limit_key (op_pagination list_things) = None"
    by (simp add: list_things_def)
  have r1: "?r1 = (Inl KeyError, service_world)"
    using m
    by (simp add: unify_paging_params_def remove_existing_paging_arguments_def list_markers_tokens)
  have hide: "remove_existing_paging_arguments (argument_table crowded_world) list_things
      = (Inr (), (argument_table crowded_world)
                   (''next-token'' \<mapsto> (service_entry 0)\<lparr>UNDOCUMENTED := Some True\<rparr>))"
    by (simp add: remove_existing_paging_arguments_def list_things_tokens crowded_world_def
        service_table_def)
  have r2: "?r2 = (Inr (),
      crowded_world\<lparr>argument_table :=
           (argument_table crowded_world)
             (''next-token'' \<mapsto> (service_entry 0)\<lparr>UNDOCUMENTED := Some True\<rparr>,
              ''starting-token'' \<mapsto>
                page_entry (PageArgument_object ''starting-token'' STARTING_TOKEN_HELP list_things ''string''),
              ''max-items'' \<mapsto>
                page_entry (PageArgument_object ''max-items'' MAX_ITEMS_HELP list_things ''integer'')),
         handlers := handlers crowded_world @
           [(str_replace ''building-argument-table.'' ''operation-args-parsed.''
               ''building-argument-table.things.list-things'', [Some ''next-token''])]\<rparr>)"
    using t
    by (simp add: unify_paging_params_def add_max_items_def set_max_items_def PageArgument_init_def
        Let_def hide list_things_tokens limit_type_def)
  have a: "fst ?r1 = Inl KeyError"
    by (simp only: r1 fst_conv)
  have b: "argument_table (snd ?r1) = argument_table service_world"
    by (simp only: r1 snd_conv)
  have c: "fst ?r2 = Inr ()"
    by (simp only: r2 fst_conv)
  have d: "argument_table crowded_world ''max-items'' = Some (service_entry 2)"
    by (simp add: crowded_world_def)
  have e: "argument_table (snd ?r2) ''max-items''
     = Some (page_entry (PageArgument_object ''max-items'' MAX_ITEMS_HELP list_things ''integer''))"
    by (simp add: r2)
  have dm: "dom (argument_table crowded_world) = {''next-token'', ''max-results'', ''max-items''}"
    by (auto simp: crowded_world_def service_table_def split: if_splits)
  have f: "dom (argument_table (snd ?r2)) - dom (argument_table crowded_world) = {''starting-token''}"
    by (auto simp: r2 dm)
  from m t a b c d e f show ?thesis by blast
qed

text \<open>
  C4, as the code has it. The construction of a \<open>PageArgument\<close> succeeds for every
  declared type, also for one that is neither \<open>string\<close> nor \<open>integer\<close>, and stores the
  type as it is. The type is looked up in \<open>type_map\<close> only by \<open>add_to_parser\<close>: there a
  type outside the map raises \<open>KeyError\<close>, and a type in the map adds the flag
  \<open>"--" + name\<close> to the parser.
\<close>

theorem page_argument_validation_deferred:
  "PageArgument_init name doc operation parse_type
     = Inr (PageArgument_object name doc operation parse_type) \<and>
   cli_type_name (PageArgument_object name doc operation parse_type) = parse_type \<and>
   (add_to_parser py_name (PageArgument_object name doc operation parse_type) parser
      = Inl KeyError) = (parse_type \<notin> {''string'', ''integer''}) \<and>
   (\<exists>t. add_to_parser py_name (PageArgument_object name doc operation parse_type) parser
      = Inr (parser @
          [\<lparr>parg_flag = ''--'' @ name,
            parg_dest = py_name (PageArgument_object name doc operation parse_type),
            parg_type = t\<rparr>]))
     = (parse_type \<in> {''string'', ''integer''})"
proof -
  let ?pa = "PageArgument_object name doc operation parse_type"
  have ty: "pa_parse_type ?pa = parse_type" and nm: "pa_name ?pa = name"
    by (simp_all add: PageArgument_object_def)
  have a: "PageArgument_init name doc operation parse_type = Inr ?pa"
    by (simp add: PageArgument_init_def)
  have b: "cli_type_name ?pa = parse_type"
    by (simp add: cli_type_name_def ty)
  have c: "(add_to_parser py_name ?pa parser = Inl KeyError) = (parse_type \<notin> {''string'', ''integer''})"
    using type_map_None_iff [of parse_type]
    by (auto simp: add_to_parser_def ty split: option.splits)
  have d: "(\<exists>t. add_to_parser py_name ?pa parser
      = Inr (parser @ [\<lparr>parg_flag = ''--'' @ name, parg_dest = py_name ?pa, parg_type = t\<rparr>]))
     = (parse_type \<in> {''string'', ''integer''})"
    using type_map_None_iff [of parse_type]
    by (auto simp: add_to_parser_def ty nm cli_name_def split: option.splits)
  from a b c d show ?thesis by blast
qed

text \<open>The theorem at the type \<open>boolean\<close>: constructed, and refused by \<open>add_to_parser\<close>.\<close>

theorem page_argument_validation_deferred_witness:
  "PageArgument_init ''max-items'' MAX_ITEMS_HELP list_flags ''boolean''
     = Inr (PageArgument_object ''max-items'' MAX_ITEMS_HELP list_flags ''boolean'') \<and>
   add_to_parser hyphen_py_name
       (PageArgument_object ''max-items'' MAX_ITEMS_HELP list_flags ''boolean'') [] = Inl KeyError"
  using page_argument_validation_deferred
    [of "''max-items''" MAX_ITEMS_HELP list_flags "''boolean''" hyphen_py_name "[]"]
  by simp

text \<open>
  The claim that construction fails for a type outside \<open>string\<close> and \<open>integer\<close> is false
  at \<open>boolean\<close>: the constructor returns the object.
\<close>

theorem page_argument_boolean_is_constructed:
  "PageArgument_init ''max-items'' MAX_ITEMS_HELP list_flags ''boolean''
     = Inr (PageArgument_object ''max-items'' MAX_ITEMS_HELP list_flags ''boolean'') \<and>
   ''boolean'' \<notin> {''string'', ''integer''}"
  by (simp add: PageArgument_init_def)

text \<open>
  C5, as the code has it. Let the operation page and let one of its input tokens, or
  its limit key, have no parameter descriptor of that name. Then \<open>_get_cli_name\<close> returns
  \<open>None\<close> for it, and the caller does not treat that as "nothing to hide": the subscript
  \<open>argument_table[None]\<close> raises \<open>KeyError\<close> (unless an earlier name already did), so
  \<open>unify_paging_params\<close> fails with \<open>KeyError\<close>. No handler has been registered and no
  entry has been added to the table when it is raised.
\<close>

theorem unify_unmatched_token_raises:
  assumes "op_can_paginate operation"
    and "token_name \<in> set (get_input_tokens operation) \<or>
         pg_limit_key (op_pagination operation) = Some token_name"
    and "token_name \<notin> param_name ` set (op_params operation)"
  shows "get_cli_name (op_params operation) token_name = None \<and>
    fst (unify_paging_params w operation event_name) = Inl KeyError \<and>
    handlers (snd (unify_paging_params w operation event_name)) = handlers w \<and>
    dom (argument_table (snd (unify_paging_params w operation event_name)))
      = dom (argument_table w)"
proof -
  let ?names = "get_all_cli_input_tokens operation"
  let ?m = "mark_undocumented (argument_table w) ?names"
  have absent: "get_cli_name (op_params operation) token_name = None"
    using assms(3) by (rule get_cli_name_None)
  have "None \<in> set ?names"
  proof -
    from assms(2) show ?thesis
    proof
      assume "token_name \<in> set (get_input_tokens operation)"
      then have "get_cli_name (op_params operation) token_name
          \<in> set (map (get_cli_name (op_params operation)) (get_input_tokens operation))"
        by simp
      then show ?thesis
        by (simp add: get_all_cli_input_tokens_def yield_cli_names_map absent)
    next
      assume "pg_limit_key (op_pagination operation) = Some token_name"
      then show ?thesis
        by (simp add: get_all_cli_input_tokens_def absent)
    qed
  qed
  then have err: "fst ?m = Inl KeyError"
    by (rule mark_undocumented_None)
  obtain tbl1 where m: "?m = (Inl KeyError, tbl1)"
    using err by (cases ?m) simp
  have r: "unify_paging_params w operation event_name
      = (Inl KeyError, w\<lparr>argument_table := tbl1\<rparr>)"
    using assms(1)
    by (simp add: unify_paging_params_def remove_existing_paging_arguments_def m)
  have d: "dom tbl1 = dom (argument_table w)"
    using mark_undocumented_dom [of "argument_table w" ?names] by (simp add: m)
  show ?thesis
    using absent d by (simp add: r)
qed

text \<open>The theorem at \<open>list_markers\<close>, whose input token \<open>Marker\<close> has no descriptor.\<close>

theorem unify_unmatched_token_raises_witness:
  "get_cli_name (op_params list_markers) ''Marker'' = None \<and>
   fst (unify_paging_params service_world list_markers ''building-argument-table.things.list-markers'')
     = Inl KeyError \<and>
   handlers (snd (unify_paging_params service_world list_markers
       ''building-argument-table.things.list-markers'')) = []"
proof -
  have h1: "op_can_paginate list_markers" by (simp add: list_markers_def)
  have h2: "''Marker'' \<in> set (get_input_tokens list_markers) \<or>
         pg_limit_key (op_pagination list_markers) = Some ''Marker''"
    by (simp add: get_input_tokens_def list_markers_def)
  have h3: "''Marker'' \<notin> param_name ` set (op_params list_markers)"
    by (simp add: list_markers_def max_results_param_def)
  show ?thesis
    using unify_unmatched_token_raises [OF h1 h2 h3, of service_world
        "''building-argument-table.things.list-markers''"]
    by (simp add: service_world_def)
qed

text \<open>
  The claim that \<open>unify_paging_params\<close> completes for such an operation fails at
  \<open>list_markers\<close>: the result is \<open>KeyError\<close>.
\<close>

theorem unify_unmatched_token_key_error:
  "get_cli_name (op_params list_markers) ''Marker'' = None \<and>
   unify_paging_params service_world list_markers ''building-argument-table.things.list-markers''
     = (Inl KeyError, service_world)"
  by (simp add: unify_paging_params_def remove_existing_paging_arguments_def list_markers_tokens)
     (simp add: list_markers_def max_results_param_def)

text \<open>
  C8. \<open>_get_all_cli_input_tokens\<close> yields the CLI name of every input token, in the
  order in which the tokens are declared, and after them, exactly when a limit key is
  configured, the CLI name of the limit key as the last element. For the input tokens
  \<open>["marker", "marker2"]\<close> and the limit key \<open>"max_results"\<close> (operation \<open>list_parts\<close>) it
  yields \<open>["marker", "marker2", "max-results"]\<close>.
\<close>

theorem all_cli_input_tokens_order:
  "get_all_cli_input_tokens operation =
     map (get_cli_name (op_params operation)) (get_input_tokens operation) @
     (case pg_limit_key (op_pagination operation) of
        None \<Rightarrow> []
      | Some key_name \<Rightarrow> [get_cli_name (op_params operation) key_name]) \<and>
   length (get_all_cli_input_tokens operation) =
     length (get_input_tokens operation) +
     (case pg_limit_key (op_pagination operation) of None \<Rightarrow> 0 | Some key_name \<Rightarrow> 1) \<and>
   get_all_cli_input_tokens list_parts = [Some ''marker'', Some ''marker2'', Some ''max-results'']"
proof -
  have a: "get_all_cli_input_tokens operation =
     map (get_cli_name (op_params operation)) (get_input_tokens operation) @
     (case pg_limit_key (op_pagination operation) of
        None \<Rightarrow> []
      | Some key_name \<Rightarrow> [get_cli_name (op_params operation) key_name])"
    by (simp add: get_all_cli_input_tokens_def yield_cli_names_map)
  have b: "length (get_all_cli_input_tokens operation) =
     length (get_input_tokens operation) +
     (case pg_limit_key (op_pagination operation) of None \<Rightarrow> 0 | Some key_name \<Rightarrow> 1)"
    by (simp add: a split: option.splits)
  have c: "get_all_cli_input_tokens list_parts = [Some ''marker'', Some ''marker2'', Some ''max-results'']"
    by (simp add: get_all_cli_input_tokens_def get_input_tokens_def list_parts_def lstrip_hyphen_def)
  from a b c show ?thesis by blast
qed

text \<open>The theorem at an operation without and at one with a limit key.\<close>

theorem all_cli_input_tokens_order_witness:
  "get_all_cli_input_tokens list_things = [Some ''next-token''] \<and>
   get_all_cli_input_tokens list_flags = [Some ''next-token'', Some ''max-results'']"
  using all_cli_input_tokens_order [of list_things] all_cli_input_tokens_order [of list_flags]
  by (simp add: get_input_tokens_def list_things_def list_flags_def next_token_param_def
      max_results_param_def lstrip_hyphen_def)

text \<open>
  C9. \<open>add_to_params\<close> writes a value that is not \<open>None\<close> into the parameters under the
  argument's internal key \<open>py_name\<close>, and leaves the parameters as they are when the value
  is \<open>None\<close>. So a value that was passed is found under the internal key afterwards,
  and when none was passed the key stays absent if it was absent: into empty parameters
  the key is written exactly when the value is not \<open>None\<close>.
\<close>

theorem add_to_params_writes_present_value:
  "add_to_params py_name self parameters (Some v) = parameters(py_name self \<mapsto> v) \<and>
   add_to_params py_name self parameters None = parameters \<and>
   add_to_params py_name self parameters (Some v) (py_name self) = Some v \<and>
   (parameters (py_name self) = None \<longrightarrow>
      add_to_params py_name self parameters None (py_name self) = None) \<and>
   (add_to_params py_name self Map.empty value (py_name self) = None) = (value = None)"
  by (cases "value") (simp_all add: add_to_params_def)

text \<open>
  The theorem for \<open>--max-items 42\<close>, with the internal key \<open>max_items\<close>: the value
  arrives under that key, and without a value the key is absent.
\<close>

theorem add_to_params_writes_present_value_witness:
  "add_to_params hyphen_py_name
       (PageArgument_object ''max-items'' MAX_ITEMS_HELP list_things ''integer'')
       Map.empty (Some (42 :: int)) = [''max_items'' \<mapsto> 42] \<and>
   add_to_params hyphen_py_name
       (PageArgument_object ''max-items'' MAX_ITEMS_HELP list_things ''integer'')
       (Map.empty :: string \<rightharpoonup> int) None ''max_items'' = None"
proof -
  let ?pa = "PageArgument_object ''max-items'' MAX_ITEMS_HELP list_things ''integer''"
  have k: "hyphen_py_name ?pa = ''max_items''"
    by (simp add: hyphen_py_name_def PageArgument_object_def replace_hyphen_def)
  show ?thesis
    using add_to_params_writes_present_value
      [of hyphen_py_name ?pa "Map.empty :: string \<rightharpoonup> int" 42 None]
    by (simp only: k, blast?)
qed

text \<open>
  C10. \<open>add_to_params\<close> changes at most the entry under the argument's own internal key:
  for a value that is not \<open>None\<close> every entry under a different key is what it was
  before the call (and for \<open>None\<close> as well).
\<close>

theorem add_to_params_frame:
  "k \<noteq> py_name self \<Longrightarrow>
     add_to_params py_name self parameters (Some v) k = parameters k \<and>
     add_to_params py_name self parameters None k = parameters k"
  by (simp add: add_to_params_def)

text \<open>The theorem for \<open>max-items\<close> and the entry \<open>starting_token\<close> of the parameters.\<close>

theorem add_to_params_frame_witness:
  "''starting_token'' \<noteq> hyphen_py_name
       (PageArgument_object ''max-items'' MAX_ITEMS_HELP list_things ''integer'') \<and>
   add_to_params hyphen_py_name
       (PageArgument_object ''max-items'' MAX_ITEMS_HELP list_things ''integer'')
       [''starting_token'' \<mapsto> ''abc'', ''max_items'' \<mapsto> ''7''] (Some ''42'') ''starting_token''
     = Some ''abc''"
proof -
  let ?pa = "PageArgument_object ''max-items'' MAX_ITEMS_HELP list_things ''integer''"
  have k: "hyphen_py_name ?pa = ''max_items''"
    by (simp add: hyphen_py_name_def PageArgument_object_def replace_hyphen_def)
  have h: "''starting_token'' \<noteq> hyphen_py_name ?pa"
    by (simp add: k)
  show ?thesis
    using h add_to_params_frame [of "''starting_token''" hyphen_py_name ?pa
        "[''starting_token'' \<mapsto> ''abc'', ''max_items'' \<mapsto> ''7'']" "''42''"]
    by simp
qed

end
